theory Spec2Isabelle
  imports Main
begin

section \<open>Exceptions and Python values\<close>

text \<open>
  The exceptions the four scripts can raise.  \<open>NotImplementedError\<close> is raised by the
  abstract stubs; \<open>TypeError\<close> and \<open>AttributeError\<close> are raised by the interpreter
  (object allocation with surplus arguments, a method looked up on an object that
  does not have it).  A call that raises returns \<open>Inl e\<close>, a call that returns
  \<open>v\<close> gives \<open>Inr v\<close>.
\<close>

datatype error = NotImplementedError | TypeError | AttributeError

text \<open>\<open>str(n)\<close> on an integer, as the f-strings of the scripts apply it to \<open>self.age\<close>.\<close>

definition digit_char :: "nat \<Rightarrow> char" where
  "digit_char d = char_of (48 + d)"

function str_nat :: "nat \<Rightarrow> string" where
  "str_nat n = (if n < 10 then [digit_char n] else str_nat (n div 10) @ [digit_char (n mod 10)])"
  by pat_completeness auto
termination
  by (relation "measure id") auto

declare str_nat.simps [simp del]

definition str_int :: "int \<Rightarrow> string" where
  "str_int i = (if i < 0 then CHR ''-'' # str_nat (nat (- i)) else str_nat (nat i))"

section \<open>factory.py, first script: the Factory Method classes\<close>

text \<open>
  \<open>Pet\<close> is the product interface, \<open>Dog\<close> and \<open>Cat\<close> its subclasses; an object is
  its class together with the three attributes \<open>__init__\<close> stores.
\<close>

datatype pet = Pet string string int | Dog string string int | Cat string string int

fun speak :: "pet \<Rightarrow> error + string" where
  "speak (Pet name breed age) = Inl NotImplementedError"
| "speak (Dog name breed age) =
     Inr (''woof! I'm '' @ name @ '', a '' @ str_int age @ ''-year-old '' @ breed @ ''.'')"
| "speak (Cat name breed age) =
     Inr (''meow! I'm '' @ name @ '', a '' @ str_int age @ ''-year-old '' @ breed @ ''.'')"

datatype pet_factory = PetFactory | DogFactory | CatFactory

fun get_pet :: "pet_factory \<Rightarrow> error + pet" where
  "get_pet PetFactory = Inl NotImplementedError"
| "get_pet DogFactory = Inr (Dog ''Jimmy'' ''Golden Retriever'' 2)"
| "get_pet CatFactory = Inr (Cat ''Tom'' ''Persian'' 3)"

text \<open>\<open>display_pet\<close> returns the line it prints.\<close>

definition display_pet :: "pet_factory \<Rightarrow> error + string" where
  "display_pet self =
     (case get_pet self of
        Inl e \<Rightarrow> Inl e
      | Inr pet \<Rightarrow> (case speak pet of
                     Inl e \<Rightarrow> Inl e
                   | Inr s \<Rightarrow> Inr (''The pet says: '' @ s)))"

section \<open>factory.py, second script: lookup in a dict, \<open>None\<close> on a miss\<close>

text \<open>
  The second \<open>Dog\<close> and \<open>Cat\<close> classes take a name only.  \<open>get_pet\<close> builds the dict
  \<open>pets\<close> on every call and returns \<open>pets.get(pet, None)\<close>: the result is an
  \<open>option\<close>, whose \<open>None\<close> is Python's \<open>None\<close>.  Keys are strings.
\<close>

datatype simple_pet = Dog_simple string | Cat_simple string

fun speak_simple :: "simple_pet \<Rightarrow> string" where
  "speak_simple (Dog_simple name) = ''woof!''"
| "speak_simple (Cat_simple name) = ''Meow!''"

definition pets_dict :: "(string \<times> simple_pet) list" where
  "pets_dict = [(''dog'', Dog_simple ''Jimmy''), (''cat'', Cat_simple ''Tom'')]"

definition get_pet_dict :: "string \<Rightarrow> error + simple_pet option" where
  "get_pet_dict pet = Inr (case map_of pets_dict pet of None \<Rightarrow> None | Some p \<Rightarrow> Some p)"

section \<open>factory.py, third script: lookup in a dict, a default pet on a miss\<close>

datatype sound_pet = Pet_sound string string

fun speak_sound :: "sound_pet \<Rightarrow> string" where
  "speak_sound (Pet_sound name sound) = sound"

definition pets_sound :: "(string \<times> sound_pet) list" where
  "pets_sound = [(''dog'', Pet_sound ''Jimmy'' ''woof!''), (''cat'', Pet_sound ''Tom'' ''Meow!'')]"

definition get_pet_default :: "string \<Rightarrow> error + sound_pet" where
  "get_pet_default pet_type =
     Inr (case map_of pets_sound pet_type of
            None \<Rightarrow> Pet_sound ''Unknown'' ''Silent''
          | Some p \<Rightarrow> p)"

section \<open>abstract__factory.py\<close>

text \<open>
  \<open>Dog\<close> and \<open>Cat\<close> are the abstract products (written \<open>Dog_abstract\<close> and
  \<open>Cat_abstract\<close> here, the names being taken by the first script), the four other
  classes the concrete ones.  \<open>PetFactory\<close> is the abstract factory (written
  \<open>PetFactory_abstract\<close>).
\<close>

datatype family_pet =
    Dog_abstract string string int
  | Cat_abstract string string int
  | FriendlyDog string string int
  | GuardDog string string int
  | FriendlyCat string string int
  | GuardCat string string int

fun speak_family :: "family_pet \<Rightarrow> error + string" where
  "speak_family (Dog_abstract name breed age) = Inl NotImplementedError"
| "speak_family (Cat_abstract name breed age) = Inl NotImplementedError"
| "speak_family (FriendlyDog name breed age) =
     Inr (''woof, I love you! I'm '' @ name @ '', a '' @ str_int age @ ''-year-old '' @ breed @ ''.'')"
| "speak_family (GuardDog name breed age) =
     Inr (''woof, stay back! I'm '' @ name @ '', a '' @ str_int age @ ''-year-old '' @ breed @ ''.'')"
| "speak_family (FriendlyCat name breed age) =
     Inr (''meow, purr. I'm '' @ name @ '', a '' @ str_int age @ ''-year-old '' @ breed @ ''.'')"
| "speak_family (GuardCat name breed age) =
     Inr (''meow, beware! I'm '' @ name @ '', a '' @ str_int age @ ''-year-old '' @ breed @ ''.'')"

datatype family_factory = PetFactory_abstract | FriendlyPetFactory | GuardPetFactory

fun create_dog :: "family_factory \<Rightarrow> error + family_pet" where
  "create_dog PetFactory_abstract = Inl NotImplementedError"
| "create_dog FriendlyPetFactory = Inr (FriendlyDog ''Jimmy'' ''Golden Retriever'' 2)"
| "create_dog GuardPetFactory = Inr (GuardDog ''Rex'' ''German Shepherd'' 4)"

fun create_cat :: "family_factory \<Rightarrow> error + family_pet" where
  "create_cat PetFactory_abstract = Inl NotImplementedError"
| "create_cat FriendlyPetFactory = Inr (FriendlyCat ''Tom'' ''Persian'' 3)"
| "create_cat GuardPetFactory = Inr (GuardCat ''Whiskers'' ''Siamese'' 5)"

text \<open>The client: \<open>get_pet(factory)\<close> creates the dog, then the cat, and returns the pair.\<close>

definition get_pet_family :: "family_factory \<Rightarrow> error + family_pet \<times> family_pet" where
  "get_pet_family factory =
     (case create_dog factory of
        Inl e \<Rightarrow> Inl e
      | Inr dog \<Rightarrow> (case create_cat factory of
                     Inl e \<Rightarrow> Inl e
                   | Inr cat \<Rightarrow> Inr (dog, cat)))"

text \<open>
  To speak about families: the family a product class belongs to (the abstract classes
  belong to none), and a sequence of create calls on one factory, in any order.
\<close>

datatype family = Friendly | Guard

fun family_of :: "family_pet \<Rightarrow> family option" where
  "family_of (Dog_abstract name breed age) = None"
| "family_of (Cat_abstract name breed age) = None"
| "family_of (FriendlyDog name breed age) = Some Friendly"
| "family_of (GuardDog name breed age) = Some Guard"
| "family_of (FriendlyCat name breed age) = Some Friendly"
| "family_of (GuardCat name breed age) = Some Guard"

datatype kind = DogKind | CatKind

fun create :: "family_factory \<Rightarrow> kind \<Rightarrow> error + family_pet" where
  "create factory DogKind = create_dog factory"
| "create factory CatKind = create_cat factory"

fun create_all :: "family_factory \<Rightarrow> kind list \<Rightarrow> error + family_pet list" where
  "create_all factory [] = Inr []"
| "create_all factory (k # ks) =
     (case create factory k of
        Inl e \<Rightarrow> Inl e
      | Inr p \<Rightarrow> (case create_all factory ks of
                   Inl e \<Rightarrow> Inl e
                 | Inr ps \<Rightarrow> Inr (p # ps)))"

section \<open>builder.py\<close>

text \<open>
  A \<open>House\<close> is built once and not changed afterwards: a value, with the five
  constructor arguments in order.  A \<open>HouseBuilder\<close> is a mutable object: its fields
  live in a store at the object's reference, and a method takes the reference \<open>self\<close>
  and the store and returns its result with the store it leaves.  None of the
  methods of this script has a \<open>raise\<close>, so the results are plain values.
\<close>

datatype house = House string string string bool bool

fun house_foundation :: "house \<Rightarrow> string" where
  "house_foundation (House f s r g p) = f"

fun house_structure :: "house \<Rightarrow> string" where
  "house_structure (House f s r g p) = s"

fun house_roof :: "house \<Rightarrow> string" where
  "house_roof (House f s r g p) = r"

fun house_has_garage :: "house \<Rightarrow> bool" where
  "house_has_garage (House f s r g p) = g"

fun house_has_swimming_pool :: "house \<Rightarrow> bool" where
  "house_has_swimming_pool (House f s r g p) = p"

fun House_str :: "house \<Rightarrow> string" where
  "House_str (House f s r g p) =
     ''House with '' @ f @ '' foundation, '' @ s @ '' structure, '' @ r @ '' roof''
       @ (if g then '', a garage'' else [])
       @ (if p then '', and a swimming pool'' else [])"

record HouseBuilder =
  foundation :: string
  "structure" :: string
  roof :: string
  has_garage :: bool
  has_swimming_pool :: bool

record builder_store =
  cell :: "nat \<Rightarrow> HouseBuilder"
  next_ref :: nat

definition HouseBuilder_init ::
  "string \<Rightarrow> string \<Rightarrow> string \<Rightarrow> builder_store \<Rightarrow> nat \<times> builder_store" where
  "HouseBuilder_init f s r st =
     (next_ref st,
      st\<lparr>cell := (cell st)(next_ref st :=
             \<lparr>foundation = f, structure = s, roof = r,
              has_garage = False, has_swimming_pool = False\<rparr>),
         next_ref := Suc (next_ref st)\<rparr>)"

definition add_garage :: "nat \<Rightarrow> bool \<Rightarrow> builder_store \<Rightarrow> nat \<times> builder_store" where
  "add_garage self v st =
     (self, st\<lparr>cell := (cell st)(self := (cell st self)\<lparr>has_garage := v\<rparr>)\<rparr>)"

definition add_swimming_pool :: "nat \<Rightarrow> bool \<Rightarrow> builder_store \<Rightarrow> nat \<times> builder_store" where
  "add_swimming_pool self v st =
     (self, st\<lparr>cell := (cell st)(self := (cell st self)\<lparr>has_swimming_pool := v\<rparr>)\<rparr>)"

definition build :: "nat \<Rightarrow> builder_store \<Rightarrow> house \<times> builder_store" where
  "build self st =
     (House (foundation (cell st self)) (structure (cell st self)) (roof (cell st self))
            (has_garage (cell st self)) (has_swimming_pool (cell st self)),
      st)"

text \<open>The store before any builder is made; the fields of unused cells are never read.\<close>

definition empty_store :: builder_store where
  "empty_store =
     \<lparr>cell = (\<lambda>_. \<lparr>foundation = [], structure = [], roof = [],
                     has_garage = False, has_swimming_pool = False\<rparr>),
      next_ref = 0\<rparr>"

section \<open>singleton_pattern.py: \<open>Singleton\<close>\<close>

text \<open>
  The class attribute \<open>_instance\<close> and the number of objects allocated so far, which
  is also the reference of the next one.  \<open>Singleton_new nargs\<close> is the call
  \<open>Singleton(...)\<close> with \<open>nargs\<close> arguments: \<open>__new__\<close> allocates through
  \<open>object.__new__\<close> only while \<open>_instance\<close> is \<open>None\<close>, and \<open>object.__new__\<close> raises
  \<open>TypeError\<close> when a class that overrides \<open>__new__\<close> passes it arguments.  The
  inherited \<open>__init__\<close> that runs afterwards does nothing.
\<close>

record singleton_state =
  instance_attr :: "nat option"
  allocated :: nat

definition singleton_initial :: singleton_state where
  "singleton_initial = \<lparr>instance_attr = None, allocated = 0\<rparr>"

definition Singleton_new :: "nat \<Rightarrow> singleton_state \<Rightarrow> error + nat \<times> singleton_state" where
  "Singleton_new nargs st =
     (case instance_attr st of
        None \<Rightarrow>
          if 0 < nargs then Inl TypeError
          else Inr (allocated st,
                    st\<lparr>instance_attr := Some (allocated st), allocated := Suc (allocated st)\<rparr>)
      | Some a \<Rightarrow> Inr (a, st))"

section \<open>singleton_pattern.py: \<open>Borg\<close> and \<open>Singleton1\<close>\<close>

text \<open>
  The instances of \<open>Singleton1\<close> alias one dict, so dicts live in a store: \<open>dicts\<close>
  gives the contents of the dict at each address, \<open>dict_of\<close> the address of each
  instance's \<open>__dict__\<close>, and \<open>next_addr\<close> the next unused address (objects and dicts
  are numbered together).  The dict the class attribute \<open>Borg._shared_state\<close> is bound
  to sits at \<open>shared_addr\<close>; nothing in the script rebinds the class attribute.
  Keyword arguments are a dict from names to values; a value is an integer, a string
  or a reference to a dict.
\<close>

datatype val = IntV int | StrV string | DictV nat

record borg_state =
  dicts :: "nat \<Rightarrow> (string \<rightharpoonup> val)"
  dict_of :: "nat \<rightharpoonup> nat"
  next_addr :: nat

definition shared_addr :: nat where
  "shared_addr = 0"

definition borg_initial :: borg_state where
  "borg_initial = \<lparr>dicts = (\<lambda>_. Map.empty), dict_of = Map.empty, next_addr = 1\<rparr>"

text \<open>
  The expression \<open>self._shared_state\<close>.  The class attribute is a plain dict, not a
  data descriptor, so Python's attribute lookup takes an entry \<open>_shared_state\<close> of the
  instance's own \<open>__dict__\<close> first and the class attribute only when there is none.
\<close>

definition self_shared_state :: "nat \<Rightarrow> borg_state \<Rightarrow> val" where
  "self_shared_state self st =
     (case dict_of st self of
        None \<Rightarrow> DictV shared_addr
      | Some d \<Rightarrow> (case dicts st d ''_shared_state'' of
                     None \<Rightarrow> DictV shared_addr
                   | Some v \<Rightarrow> v))"

text \<open>
  \<open>Borg.__init__\<close>: \<open>self.__dict__ = self._shared_state\<close>.  Assigning anything but a
  dict to \<open>__dict__\<close> raises \<open>TypeError\<close>.
\<close>

definition Borg_init :: "nat \<Rightarrow> borg_state \<Rightarrow> error + borg_state" where
  "Borg_init self st =
     (case self_shared_state self st of
        DictV a \<Rightarrow> Inr (st\<lparr>dict_of := (dict_of st)(self \<mapsto> a)\<rparr>)
      | IntV i \<Rightarrow> Inl TypeError
      | StrV s \<Rightarrow> Inl TypeError)"

text \<open>
  \<open>Singleton1.__init__\<close>: \<open>super().__init__()\<close>, then
  \<open>self._shared_state.update(kwargs)\<close>.  Integers and strings have no \<open>update\<close>.
\<close>

definition Singleton1_init :: "nat \<Rightarrow> (string \<rightharpoonup> val) \<Rightarrow> borg_state \<Rightarrow> error + borg_state" where
  "Singleton1_init self kwargs st =
     (case Borg_init self st of
        Inl e \<Rightarrow> Inl e
      | Inr st1 \<Rightarrow>
          (case self_shared_state self st1 of
             DictV a \<Rightarrow> Inr (st1\<lparr>dicts := (dicts st1)(a := dicts st1 a ++ kwargs)\<rparr>)
           | IntV i \<Rightarrow> Inl AttributeError
           | StrV s \<Rightarrow> Inl AttributeError))"

text \<open>
  The call \<open>Singleton1(**kwargs)\<close>: a new object with an empty \<open>__dict__\<close> of its own
  is allocated, \<open>__init__\<close> runs on it, and the object is returned.
\<close>

definition Singleton1 :: "(string \<rightharpoonup> val) \<Rightarrow> borg_state \<Rightarrow> error + nat \<times> borg_state" where
  "Singleton1 kwargs st =
     (let self = next_addr st;
          d = Suc (next_addr st);
          st0 = st\<lparr>dicts := (dicts st)(d := Map.empty),
                   dict_of := (dict_of st)(self \<mapsto> d),
                   next_addr := Suc (Suc (next_addr st))\<rparr>
      in case Singleton1_init self kwargs st0 of
           Inl e \<Rightarrow> Inl e
         | Inr st1 \<Rightarrow> Inr (self, st1))"

text \<open>
  What an instance shows: \<open>attrs\<close> is the contents of its \<open>__dict__\<close> (its
  attributes), and \<open>Singleton1_str\<close> the object \<open>__str__\<close> prints, which is
  \<open>self._shared_state\<close>.
\<close>

definition attrs :: "nat \<Rightarrow> borg_state \<Rightarrow> (string \<rightharpoonup> val) option" where
  "attrs self st = (case dict_of st self of None \<Rightarrow> None | Some d \<Rightarrow> Some (dicts st d))"

definition Singleton1_str :: "nat \<Rightarrow> borg_state \<Rightarrow> val" where
  "Singleton1_str self st = self_shared_state self st"

text \<open>
  The states in which the Borg instances really share: the shared dict is allocated,
  it has no entry named \<open>_shared_state\<close> (which would shadow the class attribute in
  every instance), and every instance made so far has the shared dict as its
  \<open>__dict__\<close>.  The state right after the class definitions is one of them.
\<close>

definition borg_ok :: "borg_state \<Rightarrow> bool" where
  "borg_ok st \<longleftrightarrow>
     shared_addr < next_addr st \<and>
     dicts st shared_addr ''_shared_state'' = None \<and>
     (\<forall>obj d. dict_of st obj = Some d \<longrightarrow> d = shared_addr \<and> obj < next_addr st)"

section \<open>The scripts' own outputs\<close>

text \<open>The lines the scripts print, as their comments give them.\<close>

lemma str_int_examples: "str_int 2 = ''2''" "str_int (-120) = ''-120''" "str_int 0 = ''0''"
  by code_simp+

lemma display_pet_outputs:
  "display_pet DogFactory = Inr ''The pet says: woof! I'm Jimmy, a 2-year-old Golden Retriever.''"
  "display_pet CatFactory = Inr ''The pet says: meow! I'm Tom, a 3-year-old Persian.''"
  by code_simp+

lemma get_pet_family_outputs:
  "map_sum id (map_prod speak_family speak_family) (get_pet_family FriendlyPetFactory) =
     Inr (Inr ''woof, I love you! I'm Jimmy, a 2-year-old Golden Retriever.'',
          Inr ''meow, purr. I'm Tom, a 3-year-old Persian.'')"
  "map_sum id (map_prod speak_family speak_family) (get_pet_family GuardPetFactory) =
     Inr (Inr ''woof, stay back! I'm Rex, a 4-year-old German Shepherd.'',
          Inr ''meow, beware! I'm Whiskers, a 5-year-old Siamese.'')"
  by code_simp+

lemma house_output:
  "House_str (fst (build 0 (snd (add_swimming_pool 0 True (snd (add_garage 0 True
      (snd (HouseBuilder_init ''concrete'' ''wood'' ''shingles'' empty_store)))))))) =
   ''House with concrete foundation, wood structure, shingles roof, a garage, and a swimming pool''"
  by (simp add: HouseBuilder_init_def add_garage_def add_swimming_pool_def build_def
        empty_store_def)

section \<open>Factory lookups\<close>

text \<open>
  C1.  Every key registered in a lookup table resolves to the product registered for
  it: for every entry \<open>(k, p)\<close> of the dict of the second script, \<open>get_pet(k)\<close> returns
  \<open>p\<close>, and likewise for the third script; \<open>"dog"\<close> gives the \<open>Dog("Jimmy")\<close> and
  \<open>"cat"\<close> the \<open>Cat("Tom")\<close>.  The concrete creators of the first script return the
  product their constructor call builds.
\<close>

theorem registered_key_resolves:
  "((k, p) \<in> set pets_dict \<longrightarrow> get_pet_dict k = Inr (Some p)) \<and>
   ((k, q) \<in> set pets_sound \<longrightarrow> get_pet_default k = Inr q) \<and>
   get_pet_dict ''dog'' = Inr (Some (Dog_simple ''Jimmy'')) \<and>
   get_pet_dict ''cat'' = Inr (Some (Cat_simple ''Tom'')) \<and>
   get_pet_default ''dog'' = Inr (Pet_sound ''Jimmy'' ''woof!'') \<and>
   get_pet_default ''cat'' = Inr (Pet_sound ''Tom'' ''Meow!'') \<and>
   get_pet DogFactory = Inr (Dog ''Jimmy'' ''Golden Retriever'' 2) \<and>
   get_pet CatFactory = Inr (Cat ''Tom'' ''Persian'' 3)"
  by (auto simp: pets_dict_def get_pet_dict_def pets_sound_def get_pet_default_def)

theorem registered_key_resolves_witness:
  "(''cat'', Cat_simple ''Tom'') \<in> set pets_dict \<and>
   get_pet_dict ''cat'' = Inr (Some (Cat_simple ''Tom'')) \<and>
   (''cat'', Pet_sound ''Tom'' ''Meow!'') \<in> set pets_sound \<and>
   get_pet_default ''cat'' = Inr (Pet_sound ''Tom'' ''Meow!'')"
  using registered_key_resolves [of "''cat''" "Cat_simple ''Tom''" "Pet_sound ''Tom'' ''Meow!''"]
  by (simp add: pets_dict_def pets_sound_def)

text \<open>
  The key \<open>"bird"\<close> is in neither table.  The lookup of the second script returns
  \<open>None\<close> for it and the lookup of the third script returns a pet it makes up on the
  spot; neither raises.
\<close>

theorem unregistered_key_counterexample:
  "''bird'' \<notin> fst ` set pets_dict \<and> get_pet_dict ''bird'' = Inr None \<and>
   ''bird'' \<notin> fst ` set pets_sound \<and>
   get_pet_default ''bird'' = Inr (Pet_sound ''Unknown'' ''Silent'')"
  by (simp add: pets_dict_def get_pet_dict_def pets_sound_def get_pet_default_def)

text \<open>
  C2, as the code has it.  Resolving a key that is not registered does not fail: the
  lookup of the second script returns \<open>None\<close>, and the lookup of the third script
  returns the fallback \<open>Pet("Unknown", "Silent")\<close>, which it builds itself.
\<close>

theorem unregistered_key_no_error:
  "(k \<notin> fst ` set pets_dict \<longrightarrow> get_pet_dict k = Inr None) \<and>
   (k \<notin> fst ` set pets_sound \<longrightarrow> get_pet_default k = Inr (Pet_sound ''Unknown'' ''Silent''))"
  by (auto simp: pets_dict_def get_pet_dict_def pets_sound_def get_pet_default_def)

theorem unregistered_key_no_error_witness:
  "''horse'' \<notin> fst ` set pets_dict \<and> get_pet_dict ''horse'' = Inr None \<and>
   ''horse'' \<notin> fst ` set pets_sound \<and>
   get_pet_default ''horse'' = Inr (Pet_sound ''Unknown'' ''Silent'')"
  using unregistered_key_no_error [of "''horse''"]
  by (simp add: pets_dict_def pets_sound_def)

text \<open>
  C10.  For every key other than \<open>"dog"\<close> and \<open>"cat"\<close> the dict-based \<open>get_pet\<close>
  returns \<open>None\<close>, and the variant with a default returns a pet named \<open>"Unknown"\<close>
  whose \<open>speak()\<close> is \<open>"Silent"\<close>; on no key at all does either of them raise.
\<close>

theorem lookup_miss_returns_value:
  "(k \<noteq> ''dog'' \<and> k \<noteq> ''cat'' \<longrightarrow>
      get_pet_dict k = Inr None \<and>
      get_pet_default k = Inr (Pet_sound ''Unknown'' ''Silent'') \<and>
      speak_sound (Pet_sound ''Unknown'' ''Silent'') = ''Silent'') \<and>
   (\<exists>r. get_pet_dict k = Inr r) \<and>
   (\<exists>p. get_pet_default k = Inr p)"
  by (auto simp: pets_dict_def get_pet_dict_def pets_sound_def get_pet_default_def)

theorem lookup_miss_returns_value_witness:
  "''fish'' \<noteq> ''dog'' \<and> ''fish'' \<noteq> ''cat'' \<and>
   get_pet_dict ''fish'' = Inr None \<and>
   get_pet_default ''fish'' = Inr (Pet_sound ''Unknown'' ''Silent'')"
  using lookup_miss_returns_value [of "''fish''"]
  by simp

section \<open>Abstract stubs\<close>

text \<open>
  C8.  The operations of the abstract classes raise \<open>NotImplementedError\<close>:
  \<open>Pet.speak\<close> and \<open>PetFactory.get_pet\<close> (hence \<open>display_pet\<close>) of the first script,
  \<open>PetFactory.create_dog\<close>, \<open>PetFactory.create_cat\<close>, \<open>Dog.speak\<close> and \<open>Cat.speak\<close> of
  the abstract factory.  Every override in a concrete class returns a value.
\<close>

theorem abstract_stubs_raise:
  "speak (Pet name breed age) = Inl NotImplementedError \<and>
   get_pet PetFactory = Inl NotImplementedError \<and>
   display_pet PetFactory = Inl NotImplementedError \<and>
   create_dog PetFactory_abstract = Inl NotImplementedError \<and>
   create_cat PetFactory_abstract = Inl NotImplementedError \<and>
   speak_family (Dog_abstract name breed age) = Inl NotImplementedError \<and>
   speak_family (Cat_abstract name breed age) = Inl NotImplementedError \<and>
   (\<exists>s. speak (Dog name breed age) = Inr s) \<and>
   (\<exists>s. speak (Cat name breed age) = Inr s) \<and>
   (\<exists>s. speak_family (FriendlyDog name breed age) = Inr s) \<and>
   (\<exists>s. speak_family (GuardDog name breed age) = Inr s) \<and>
   (\<exists>s. speak_family (FriendlyCat name breed age) = Inr s) \<and>
   (\<exists>s. speak_family (GuardCat name breed age) = Inr s) \<and>
   (\<exists>p. get_pet DogFactory = Inr p) \<and>
   (\<exists>p. get_pet CatFactory = Inr p) \<and>
   (\<exists>p. create_dog FriendlyPetFactory = Inr p) \<and>
   (\<exists>p. create_cat FriendlyPetFactory = Inr p) \<and>
   (\<exists>p. create_dog GuardPetFactory = Inr p) \<and>
   (\<exists>p. create_cat GuardPetFactory = Inr p)"
  by (simp add: display_pet_def)

section \<open>Families\<close>

lemma create_all_family:
  assumes "factory = FriendlyPetFactory \<and> fam = Friendly \<or>
           factory = GuardPetFactory \<and> fam = Guard"
  shows "\<exists>ps. create_all factory ks = Inr ps \<and> length ps = length ks \<and>
              (\<forall>p \<in> set ps. family_of p = Some fam)"
proof (induction ks)
  case Nil
  show ?case by simp
next
  case (Cons k ks)
  then obtain ps where ps: "create_all factory ks = Inr ps" "length ps = length ks"
    "\<forall>p \<in> set ps. family_of p = Some fam" by blast
  from assms obtain p where "create factory k = Inr p" "family_of p = Some fam"
    by (cases k) auto
  with ps show ?case by simp
qed

text \<open>
  C7.  Whatever the sequence of create calls on the guard factory, every call
  returns a product and all the products are of the guard family; the same holds of
  the friendly factory and the friendly family.  The client \<open>get_pet\<close> gets a
  \<open>GuardDog\<close> and a \<open>GuardCat\<close> from the one, a \<open>FriendlyDog\<close> and a \<open>FriendlyCat\<close>
  from the other.
\<close>

theorem family_consistency:
  "(\<exists>ps. create_all GuardPetFactory ks = Inr ps \<and> length ps = length ks \<and>
         (\<forall>p \<in> set ps. family_of p = Some Guard)) \<and>
   (\<exists>ps. create_all FriendlyPetFactory ks = Inr ps \<and> length ps = length ks \<and>
         (\<forall>p \<in> set ps. family_of p = Some Friendly)) \<and>
   get_pet_family GuardPetFactory =
     Inr (GuardDog ''Rex'' ''German Shepherd'' 4, GuardCat ''Whiskers'' ''Siamese'' 5) \<and>
   get_pet_family FriendlyPetFactory =
     Inr (FriendlyDog ''Jimmy'' ''Golden Retriever'' 2, FriendlyCat ''Tom'' ''Persian'' 3)"
  using create_all_family [of GuardPetFactory Guard ks]
        create_all_family [of FriendlyPetFactory Friendly ks]
  by (simp add: get_pet_family_def)

theorem family_consistency_witness:
  "create_all GuardPetFactory [CatKind, DogKind, CatKind] =
     Inr [GuardCat ''Whiskers'' ''Siamese'' 5, GuardDog ''Rex'' ''German Shepherd'' 4,
          GuardCat ''Whiskers'' ''Siamese'' 5] \<and>
   map family_of [GuardCat ''Whiskers'' ''Siamese'' 5, GuardDog ''Rex'' ''German Shepherd'' 4,
          GuardCat ''Whiskers'' ''Siamese'' 5] = [Some Guard, Some Guard, Some Guard] \<and>
   create_all FriendlyPetFactory [CatKind, DogKind, CatKind] =
     Inr [FriendlyCat ''Tom'' ''Persian'' 3, FriendlyDog ''Jimmy'' ''Golden Retriever'' 2,
          FriendlyCat ''Tom'' ''Persian'' 3]"
  using family_consistency [of "[CatKind, DogKind, CatKind]"]
  by simp

section \<open>The builder\<close>

text \<open>
  C5.  \<open>HouseBuilder(f, s, r).add_garage(True).add_swimming_pool(True).build()\<close> is
  the house with those three parts, a garage and a swimming pool, and so for every
  builder already in the store.  For every builder, \<open>add_garage(False)\<close> after
  \<open>add_garage(True)\<close> and before \<open>build()\<close> gives a house without garage, also with
  another step in between: of two writes to one optional field the later one stays.
\<close>

theorem builder_last_write_wins:
  "(let (b, s1) = HouseBuilder_init f s r st;
        (b1, s2) = add_garage b True s1;
        (b2, s3) = add_swimming_pool b1 True s2;
        (h, s4) = build b2 s3
    in h) = House f s r True True \<and>
   (let (b1, s1) = add_garage self True st;
        (b2, s2) = add_swimming_pool b1 True s1;
        (h, s3) = build b2 s2
    in (house_has_garage h, house_has_swimming_pool h)) = (True, True) \<and>
   (let (b1, s1) = add_garage self True st;
        (b2, s2) = add_garage b1 False s1;
        (h, s3) = build b2 s2
    in house_has_garage h) = False \<and>
   (let (b1, s1) = add_garage self True st;
        (b2, s2) = add_swimming_pool b1 v s1;
        (b3, s3) = add_garage b2 False s2;
        (h, s4) = build b3 s3
    in house_has_garage h) = False \<and>
   (let (b1, s1) = add_garage self v st;
        (b2, s2) = add_garage b1 w s1;
        (h, s3) = build b2 s2
    in house_has_garage h) = w \<and>
   (let (b1, s1) = add_swimming_pool self v st;
        (b2, s2) = add_swimming_pool b1 w s1;
        (h, s3) = build b2 s2
    in house_has_swimming_pool h) = w"
  by (simp add: HouseBuilder_init_def add_garage_def add_swimming_pool_def build_def)

text \<open>
  On a new builder, \<open>build()\<close>, then \<open>add_garage(True)\<close>, then \<open>build()\<close> again: all
  three calls return, the step after the first \<open>build()\<close> takes effect, and the second
  house has the garage the first one lacks.
\<close>

theorem builder_not_finalized_counterexample:
  "(let (b, s1) = HouseBuilder_init ''concrete'' ''wood'' ''shingles'' empty_store;
        (h1, s2) = build b s1;
        (b1, s3) = add_garage b True s2;
        (h2, s4) = build b1 s3
    in (h1, h2)) =
   (House ''concrete'' ''wood'' ''shingles'' False False,
    House ''concrete'' ''wood'' ''shingles'' True False)"
  by (simp add: HouseBuilder_init_def add_garage_def build_def empty_store_def)

text \<open>
  C6, as the code has it.  \<open>build()\<close> returns a house holding the builder's five
  fields as they are at that instant and leaves the builder as it was: there is no
  finalized state.  After \<open>build()\<close> a second \<open>build()\<close> returns the same house, and
  a step still writes its field, which the next \<open>build()\<close> shows.
\<close>

theorem build_snapshot_builder_stays_open:
  "fst (build self st) =
     House (foundation (cell st self)) (structure (cell st self)) (roof (cell st self))
           (has_garage (cell st self)) (has_swimming_pool (cell st self)) \<and>
   snd (build self st) = st \<and>
   fst (build self (snd (build self st))) = fst (build self st) \<and>
   house_has_garage (fst (build self (snd (add_garage self v (snd (build self st)))))) = v \<and>
   house_has_swimming_pool
     (fst (build self (snd (add_swimming_pool self v (snd (build self st)))))) = v"
  by (simp add: add_garage_def add_swimming_pool_def build_def)

text \<open>
  C9.  \<open>add_garage\<close> returns the builder it was called on, sets \<open>has_garage\<close> and
  leaves \<open>foundation\<close>, \<open>structure\<close>, \<open>roof\<close> and \<open>has_swimming_pool\<close> as they were;
  \<open>add_swimming_pool\<close> likewise with the two optional fields exchanged.  Neither
  touches another builder, nor allocates.
\<close>

theorem step_frame:
  "fst (add_garage self v st) = self \<and>
   has_garage (cell (snd (add_garage self v st)) self) = v \<and>
   foundation (cell (snd (add_garage self v st)) self) = foundation (cell st self) \<and>
   structure (cell (snd (add_garage self v st)) self) = structure (cell st self) \<and>
   roof (cell (snd (add_garage self v st)) self) = roof (cell st self) \<and>
   has_swimming_pool (cell (snd (add_garage self v st)) self) = has_swimming_pool (cell st self) \<and>
   (other \<noteq> self \<longrightarrow> cell (snd (add_garage self v st)) other = cell st other) \<and>
   next_ref (snd (add_garage self v st)) = next_ref st \<and>
   fst (add_swimming_pool self v st) = self \<and>
   has_swimming_pool (cell (snd (add_swimming_pool self v st)) self) = v \<and>
   foundation (cell (snd (add_swimming_pool self v st)) self) = foundation (cell st self) \<and>
   structure (cell (snd (add_swimming_pool self v st)) self) = structure (cell st self) \<and>
   roof (cell (snd (add_swimming_pool self v st)) self) = roof (cell st self) \<and>
   has_garage (cell (snd (add_swimming_pool self v st)) self) = has_garage (cell st self) \<and>
   (other \<noteq> self \<longrightarrow> cell (snd (add_swimming_pool self v st)) other = cell st other) \<and>
   next_ref (snd (add_swimming_pool self v st)) = next_ref st"
  by (simp add: add_garage_def add_swimming_pool_def)

theorem step_frame_witness:
  "(1::nat) \<noteq> 0 \<and>
   (let (a, s1) = HouseBuilder_init ''concrete'' ''wood'' ''shingles'' empty_store;
        (b, s2) = HouseBuilder_init ''stone'' ''brick'' ''tile'' s1
    in a = 0 \<and> b = 1 \<and>
       fst (add_garage a True s2) = a \<and>
       cell (snd (add_garage a True s2)) b = cell s2 b \<and>
       cell (snd (add_swimming_pool a True s2)) b = cell s2 b \<and>
       has_garage (cell (snd (add_garage a True s2)) a))"
  using step_frame [of 0 True "snd (HouseBuilder_init ''stone'' ''brick'' ''tile''
          (snd (HouseBuilder_init ''concrete'' ''wood'' ''shingles'' empty_store)))" 1]
  by (simp add: HouseBuilder_init_def empty_store_def)

section \<open>The singleton\<close>

text \<open>
  C3.  In every state of the class, \<open>Singleton()\<close> returns an object and leaves it
  stored in \<open>_instance\<close>; from then on every call, with any number of arguments,
  returns that same object and changes nothing, so nothing more is allocated.  The
  first call allocates exactly when \<open>_instance\<close> was \<open>None\<close>.
\<close>

theorem singleton_identity:
  "\<exists>a st1. Singleton_new 0 st = Inr (a, st1) \<and>
            instance_attr st1 = Some a \<and>
            (\<forall>n. Singleton_new n st1 = Inr (a, st1)) \<and>
            st1 = (if instance_attr st = None
                   then st\<lparr>instance_attr := Some (allocated st), allocated := Suc (allocated st)\<rparr>
                   else st)"
  by (cases "instance_attr st") (simp_all add: Singleton_new_def)

lemma singleton_first_call:
  "Singleton_new 0 singleton_initial = Inr (0, \<lparr>instance_attr = Some 0, allocated = 1\<rparr>)"
  "Singleton_new (Suc n) singleton_initial = Inl TypeError"
  by (simp_all add: Singleton_new_def singleton_initial_def)

section \<open>The Borg\<close>

lemma Singleton1_ok:
  assumes ok: "borg_ok st" and F: "''_shared_state'' \<notin> dom F"
  shows "Singleton1 F st =
           Inr (next_addr st,
                st\<lparr>dicts := (dicts st)(Suc (next_addr st) := Map.empty,
                                         shared_addr := dicts st shared_addr ++ F),
                   dict_of := (dict_of st)(next_addr st \<mapsto> shared_addr),
                   next_addr := Suc (Suc (next_addr st))\<rparr>)"
  using ok F
  unfolding borg_ok_def Singleton1_def Singleton1_init_def Borg_init_def self_shared_state_def
  by (simp add: Let_def)

lemma Singleton1_keeps_ok:
  assumes ok: "borg_ok st" and F: "''_shared_state'' \<notin> dom F"
    and r: "Singleton1 F st = Inr (obj, st')"
  shows "borg_ok st'"
proof -
  from r have st': "st' = st\<lparr>dicts := (dicts st)(Suc (next_addr st) := Map.empty,
                                         shared_addr := dicts st shared_addr ++ F),
                   dict_of := (dict_of st)(next_addr st \<mapsto> shared_addr),
                   next_addr := Suc (Suc (next_addr st))\<rparr>"
    by (auto simp: Singleton1_ok [OF ok F])
  from ok have lt: "shared_addr < next_addr st"
    and none: "dicts st shared_addr ''_shared_state'' = None"
    and objs: "\<And>x d. dict_of st x = Some d \<Longrightarrow> d = shared_addr \<and> x < next_addr st"
    unfolding borg_ok_def by blast+
  have "shared_addr < next_addr st'" using lt by (simp add: st')
  moreover have "dicts st' shared_addr ''_shared_state'' = None"
    using none F by (simp add: st' map_add_def dom_def)
  moreover have "d = shared_addr \<and> x < next_addr st'" if "dict_of st' x = Some d" for x d
  proof (cases "x = next_addr st")
    case True
    with that show ?thesis by (simp add: st')
  next
    case False
    with that have "dict_of st x = Some d" by (simp add: st')
    from objs [OF this] show ?thesis by (simp add: st')
  qed
  ultimately show ?thesis unfolding borg_ok_def by blast
qed

lemma Singleton1_view:
  assumes ok: "borg_ok st" and d: "dict_of st obj = Some d"
  shows "attrs obj st = Some (dicts st shared_addr) \<and> Singleton1_str obj st = DictV shared_addr"
proof -
  from ok d have "d = shared_addr" unfolding borg_ok_def by blast
  moreover from ok have "dicts st shared_addr ''_shared_state'' = None"
    unfolding borg_ok_def by blast
  ultimately show ?thesis
    using d by (simp add: attrs_def Singleton1_str_def self_shared_state_def)
qed

text \<open>
  With any field names but \<open>_shared_state\<close>, from a state in which the instances
  share: \<open>Singleton1(**F1)\<close> and then \<open>Singleton1(**F2)\<close> both return; the two
  objects are new and distinct, and both have the shared dict as their \<open>__dict__\<close>.
  After the first call every instance there is shows the earlier shared fields with
  \<open>F1\<close> over them, after the second call every instance shows these with \<open>F2\<close>
  over them, in its attributes and in what \<open>__str__\<close> prints.
\<close>

lemma Singleton1_twice_other_names:
  assumes ok: "borg_ok st"
    and F1: "''_shared_state'' \<notin> dom F1"
    and F2: "''_shared_state'' \<notin> dom F2"
  shows "\<exists>o1 st1 o2 st2.
           Singleton1 F1 st = Inr (o1, st1) \<and> Singleton1 F2 st1 = Inr (o2, st2) \<and>
           o1 \<noteq> o2 \<and> dict_of st o1 = None \<and> dict_of st1 o2 = None \<and>
           dict_of st2 o1 = Some shared_addr \<and> dict_of st2 o2 = Some shared_addr \<and>
           dom (dict_of st1) = insert o1 (dom (dict_of st)) \<and>
           dom (dict_of st2) = insert o2 (dom (dict_of st1)) \<and>
           (\<forall>obj \<in> dom (dict_of st1).
              attrs obj st1 = Some (dicts st shared_addr ++ F1) \<and>
              Singleton1_str obj st1 = DictV shared_addr) \<and>
           (\<forall>obj \<in> dom (dict_of st2).
              attrs obj st2 = Some (dicts st shared_addr ++ F1 ++ F2) \<and>
              Singleton1_str obj st2 = DictV shared_addr) \<and>
           dicts st2 shared_addr = dicts st shared_addr ++ F1 ++ F2 \<and>
           borg_ok st2"
proof -
  define o1 where "o1 = next_addr st"
  define st1 where "st1 = st\<lparr>dicts := (dicts st)(Suc (next_addr st) := Map.empty,
                                         shared_addr := dicts st shared_addr ++ F1),
                   dict_of := (dict_of st)(next_addr st \<mapsto> shared_addr),
                   next_addr := Suc (Suc (next_addr st))\<rparr>"
  have c1: "Singleton1 F1 st = Inr (o1, st1)"
    unfolding o1_def st1_def by (rule Singleton1_ok [OF ok F1])
  have ok1: "borg_ok st1" by (rule Singleton1_keeps_ok [OF ok F1 c1])
  define o2 where "o2 = next_addr st1"
  define st2 where "st2 = st1\<lparr>dicts := (dicts st1)(Suc (next_addr st1) := Map.empty,
                                         shared_addr := dicts st1 shared_addr ++ F2),
                   dict_of := (dict_of st1)(next_addr st1 \<mapsto> shared_addr),
                   next_addr := Suc (Suc (next_addr st1))\<rparr>"
  have c2: "Singleton1 F2 st1 = Inr (o2, st2)"
    unfolding o2_def st2_def by (rule Singleton1_ok [OF ok1 F2])
  have ok2: "borg_ok st2" by (rule Singleton1_keeps_ok [OF ok1 F2 c2])
  have sh1: "dicts st1 shared_addr = dicts st shared_addr ++ F1"
    by (simp add: st1_def)
  have sh2: "dicts st2 shared_addr = dicts st shared_addr ++ F1 ++ F2"
    by (simp add: st2_def sh1)
  have fresh1: "dict_of st o1 = None"
    using ok by (cases "dict_of st o1") (auto simp: borg_ok_def o1_def)
  have fresh2: "dict_of st1 o2 = None"
    using ok1 by (cases "dict_of st1 o2") (auto simp: borg_ok_def o2_def)
  have ne: "o1 \<noteq> o2" by (simp add: o1_def o2_def st1_def)
  have d1: "dict_of st2 o1 = Some shared_addr"
    using ne by (simp add: st2_def st1_def o1_def o2_def)
  have d2: "dict_of st2 o2 = Some shared_addr" by (simp add: st2_def o2_def)
  have dom1: "dom (dict_of st1) = insert o1 (dom (dict_of st))" by (simp add: st1_def o1_def)
  have dom2: "dom (dict_of st2) = insert o2 (dom (dict_of st1))" by (simp add: st2_def o2_def)
  have v1: "\<forall>obj \<in> dom (dict_of st1).
              attrs obj st1 = Some (dicts st shared_addr ++ F1) \<and>
              Singleton1_str obj st1 = DictV shared_addr"
    using Singleton1_view [OF ok1] sh1 by auto
  have v2: "\<forall>obj \<in> dom (dict_of st2).
              attrs obj st2 = Some (dicts st shared_addr ++ F1 ++ F2) \<and>
              Singleton1_str obj st2 = DictV shared_addr"
    using Singleton1_view [OF ok2] sh2 by auto
  from c1 c2 ne fresh1 fresh2 d1 d2 dom1 dom2 v1 v2 sh2 ok2 show ?thesis by blast
qed

text \<open>
  The script's own run, \<open>Singleton1(a=1, b=2)\<close> and then \<open>Singleton1(c=3)\<close>: both
  instances show \<open>{'a': 1, 'b': 2, 'c': 3}\<close>, as the comments of the script say, and
  they are two objects.
\<close>

lemma Singleton1_script_run:
  "borg_ok borg_initial \<and>
   ''_shared_state'' \<notin> dom [''a'' \<mapsto> IntV 1, ''b'' \<mapsto> IntV 2] \<and>
   ''_shared_state'' \<notin> dom [''c'' \<mapsto> IntV 3] \<and>
   (\<exists>o1 st1 o2 st2.
      Singleton1 [''a'' \<mapsto> IntV 1, ''b'' \<mapsto> IntV 2] borg_initial = Inr (o1, st1) \<and>
      Singleton1 [''c'' \<mapsto> IntV 3] st1 = Inr (o2, st2) \<and>
      o1 \<noteq> o2 \<and>
      attrs o1 st2 = Some [''a'' \<mapsto> IntV 1, ''b'' \<mapsto> IntV 2, ''c'' \<mapsto> IntV 3] \<and>
      attrs o2 st2 = Some [''a'' \<mapsto> IntV 1, ''b'' \<mapsto> IntV 2, ''c'' \<mapsto> IntV 3])"
proof -
  have ok: "borg_ok borg_initial"
    by (simp add: borg_ok_def borg_initial_def shared_addr_def)
  have F1: "''_shared_state'' \<notin> dom [''a'' \<mapsto> IntV 1, ''b'' \<mapsto> IntV 2]" by simp
  have F2: "''_shared_state'' \<notin> dom [''c'' \<mapsto> IntV 3]" by simp
  have e: "dicts borg_initial shared_addr = Map.empty" by (simp add: borg_initial_def)
  from Singleton1_twice_other_names [OF ok F1 F2] obtain o1 st1 o2 st2 where
    c: "Singleton1 [''a'' \<mapsto> IntV 1, ''b'' \<mapsto> IntV 2] borg_initial = Inr (o1, st1)"
       "Singleton1 [''c'' \<mapsto> IntV 3] st1 = Inr (o2, st2)" "o1 \<noteq> o2"
       "dict_of st2 o1 = Some shared_addr" "dict_of st2 o2 = Some shared_addr"
    and v: "\<forall>obj \<in> dom (dict_of st2).
              attrs obj st2 = Some (dicts borg_initial shared_addr ++
                 [''a'' \<mapsto> IntV 1, ''b'' \<mapsto> IntV 2] ++ [''c'' \<mapsto> IntV 3]) \<and>
              Singleton1_str obj st2 = DictV shared_addr"
    by blast
  from c v have "attrs o1 st2 = Some [''a'' \<mapsto> IntV 1, ''b'' \<mapsto> IntV 2, ''c'' \<mapsto> IntV 3]"
    "attrs o2 st2 = Some [''a'' \<mapsto> IntV 1, ''b'' \<mapsto> IntV 2, ''c'' \<mapsto> IntV 3]"
    by (auto simp: e)
  with c ok F1 F2 show ?thesis by blast
qed

text \<open>
  C4.  Every call of \<open>Singleton1\<close> is to give a new object, all instances are to
  share one state, and after the calls with the fields \<open>F1\<close> and then \<open>F2\<close> every
  instance is to show both, \<open>F2\<close> over \<open>F1\<close>.  The script does so for every field
  name but one.  \<open>Singleton1(_shared_state=5)\<close> and then \<open>Singleton1(a=1)\<close>, from
  the state right after the class definitions: the first call returns and stores an
  entry \<open>_shared_state\<close> in the shared dict; in the second call
  \<open>self._shared_state\<close> finds that entry, the integer 5, in the instance's
  \<open>__dict__\<close> before the class attribute, and \<open>5.update\<close> raises
  \<open>AttributeError\<close>.  No instance comes to show the fields of both calls.  With the
  two calls in the other order both return and the attributes are shared, but what
  \<open>__str__\<close> prints is the integer and not the shared state.
\<close>

theorem borg_shadowed_shared_state:
  "(\<exists>st1. Singleton1 [''_shared_state'' \<mapsto> IntV 5] borg_initial = Inr (1, st1) \<and>
          attrs 1 st1 = Some [''_shared_state'' \<mapsto> IntV 5] \<and>
          Singleton1 [''a'' \<mapsto> IntV 1] st1 = Inl AttributeError) \<and>
   (\<exists>st1 st2. Singleton1 [''a'' \<mapsto> IntV 1] borg_initial = Inr (1, st1) \<and>
          Singleton1 [''_shared_state'' \<mapsto> IntV 5] st1 = Inr (3, st2) \<and>
          attrs 1 st2 = Some [''a'' \<mapsto> IntV 1, ''_shared_state'' \<mapsto> IntV 5] \<and>
          attrs 3 st2 = Some [''a'' \<mapsto> IntV 1, ''_shared_state'' \<mapsto> IntV 5] \<and>
          Singleton1_str 1 st2 = IntV 5 \<and> Singleton1_str 3 st2 = IntV 5)"
  by (simp add: Singleton1_def Singleton1_init_def Borg_init_def self_shared_state_def
        attrs_def Singleton1_str_def borg_initial_def shared_addr_def Let_def)

end
